theory Spec2Isabelle
  imports Complex_Main
begin

section \<open>JavaScript values\<close>

text \<open>
  The payment code of the repository (the class \<open>MPesa\<close> and the two route handlers that
  call it) is written in JavaScript. Arguments that reach it from a request body are
  arbitrary JSON values, so they are modelled as values of \<open>jsval\<close>. A JavaScript number
  is \<open>NaN\<close>, an infinity or a finite value; finite values are kept as exact rationals
  (every double is one), so the rounding of floating-point arithmetic is not part of the
  model. Objects and arrays are not among the values.
\<close>

datatype jsnum = NaN | PosInf | NegInf | Fin rat

datatype jsval = JUndefined | JNull | JBool bool | JNum jsnum | JStr string

text \<open>\<open>truthy v\<close> is the outcome of \<open>if (v)\<close>; \<open>!v\<close> is its negation.\<close>

fun truthy :: "jsval \<Rightarrow> bool" where
  "truthy JUndefined = False"
| "truthy JNull = False"
| "truthy (JBool b) = b"
| "truthy (JNum n) = (n \<noteq> NaN \<and> n \<noteq> Fin 0)"
| "truthy (JStr s) = (s \<noteq> [])"

text \<open>\<open>a || b\<close> on values.\<close>

definition js_or :: "jsval \<Rightarrow> jsval \<Rightarrow> jsval" where
  "js_or a b = (if truthy a then a else b)"

text \<open>
  \<open>v.toString()\<close> raises a TypeError on \<open>undefined\<close> and \<open>null\<close>. The text it returns
  for the other values is not computed: a text column of the store keeps the value that
  was written to it.
\<close>

definition has_toString :: "jsval \<Rightarrow> bool" where
  "has_toString v = (v \<noteq> JUndefined \<and> v \<noteq> JNull)"

subsection \<open>Characters and digit strings\<close>

definition is_digit :: "char \<Rightarrow> bool" where
  "is_digit c = (48 \<le> (of_char c :: nat) \<and> (of_char c :: nat) \<le> 57)"

definition digit_val :: "char \<Rightarrow> nat" where
  "digit_val c = (of_char c :: nat) - 48"

definition digits_to_nat :: "string \<Rightarrow> nat" where
  "digits_to_nat s = foldl (\<lambda>a c. 10 * a + digit_val c) 0 s"

text \<open>\<open>s.startsWith(p)\<close> and \<open>s.includes(p)\<close> on strings.\<close>

definition startsWith :: "string \<Rightarrow> string \<Rightarrow> bool" where
  "startsWith s p = (take (length p) s = p)"

fun includes_js :: "string \<Rightarrow> string \<Rightarrow> bool" where
  "includes_js [] p = (p = [])"
| "includes_js (c # cs) p = (startsWith (c # cs) p \<or> includes_js cs p)"

subsection \<open>Numbers\<close>

text \<open>\<open>Math.floor\<close> and the comparison \<open>a < b\<close> on numbers (\<open>a > b\<close> is \<open>b < a\<close>). Every
  comparison with \<open>NaN\<close> is false.\<close>

fun Math_floor :: "jsnum \<Rightarrow> jsnum" where
  "Math_floor (Fin r) = Fin (of_int \<lfloor>r\<rfloor>)"
| "Math_floor NaN = NaN"
| "Math_floor PosInf = PosInf"
| "Math_floor NegInf = NegInf"

fun js_lt :: "jsnum \<Rightarrow> jsnum \<Rightarrow> bool" where
  "js_lt (Fin a) (Fin b) = (a < b)"
| "js_lt (Fin a) PosInf = True"
| "js_lt NegInf (Fin b) = True"
| "js_lt NegInf PosInf = True"
| "js_lt _ _ = False"

definition js_gt :: "jsnum \<Rightarrow> jsnum \<Rightarrow> bool" where
  "js_gt a b = js_lt b a"

fun js_neg :: "jsnum \<Rightarrow> jsnum" where
  "js_neg (Fin r) = Fin (- r)"
| "js_neg NaN = NaN"
| "js_neg PosInf = NegInf"
| "js_neg NegInf = PosInf"

text \<open>
  \<open>Number(v)\<close>. For a string this is the StringToNumber conversion of the language:
  white space is trimmed (the ASCII white space characters; the strings of the model are
  byte strings), the empty string is 0, then a binary, octal or hexadecimal integer
  literal, or an optionally signed \<open>Infinity\<close> or decimal literal with an optional
  fraction and exponent; everything else is \<open>NaN\<close>.
\<close>

definition is_space :: "char \<Rightarrow> bool" where
  "is_space c = ((of_char c :: nat) \<in> {9, 10, 11, 12, 13, 32})"

definition trim :: "string \<Rightarrow> string" where
  "trim s = rev (dropWhile is_space (rev (dropWhile is_space s)))"

definition radix_digit :: "nat \<Rightarrow> char \<Rightarrow> nat option" where
  "radix_digit b c =
     (let n = (of_char c :: nat);
          v = (if 48 \<le> n \<and> n \<le> 57 then Some (n - 48)
               else if 97 \<le> n \<and> n \<le> 102 then Some (n - 87)
               else if 65 \<le> n \<and> n \<le> 70 then Some (n - 55)
               else None)
      in case v of None \<Rightarrow> None | Some d \<Rightarrow> if d < b then Some d else None)"

fun radix_to_nat :: "nat \<Rightarrow> string \<Rightarrow> nat \<Rightarrow> nat option" where
  "radix_to_nat b [] acc = Some acc"
| "radix_to_nat b (c # cs) acc =
     (case radix_digit b c of None \<Rightarrow> None | Some d \<Rightarrow> radix_to_nat b cs (b * acc + d))"

definition radix_literal :: "nat \<Rightarrow> string \<Rightarrow> jsnum" where
  "radix_literal b ds =
     (if ds = [] then NaN
      else case radix_to_nat b ds 0 of None \<Rightarrow> NaN | Some n \<Rightarrow> Fin (of_nat n))"

definition pow10 :: "int \<Rightarrow> rat" where
  "pow10 e = (if 0 \<le> e then 10 ^ nat e else 1 / 10 ^ nat (- e))"

fun exponent_part :: "string \<Rightarrow> int option" where
  "exponent_part [] = Some 0"
| "exponent_part (c # cs) =
     (if c = CHR ''e'' \<or> c = CHR ''E'' then
        (let neg = (cs \<noteq> [] \<and> hd cs = CHR ''-'');
             ds = (if cs \<noteq> [] \<and> (hd cs = CHR ''-'' \<or> hd cs = CHR ''+'') then tl cs else cs)
         in if ds \<noteq> [] \<and> list_all is_digit ds
            then Some (if neg then - int (digits_to_nat ds) else int (digits_to_nat ds))
            else None)
      else None)"

definition StrUnsignedDecimalLiteral :: "string \<Rightarrow> jsnum" where
  "StrUnsignedDecimalLiteral s =
     (if s = ''Infinity'' then PosInf
      else
        let ip = takeWhile is_digit s;
            r1 = dropWhile is_digit s;
            dot = (r1 \<noteq> [] \<and> hd r1 = CHR ''.'');
            fp = (if dot then takeWhile is_digit (tl r1) else []);
            r2 = (if dot then dropWhile is_digit (tl r1) else r1)
        in if ip = [] \<and> fp = [] then NaN
           else case exponent_part r2 of
                  None \<Rightarrow> NaN
                | Some e \<Rightarrow> Fin (of_nat (digits_to_nat (ip @ fp)) * pow10 (e - int (length fp))))"

definition StringToNumber :: "string \<Rightarrow> jsnum" where
  "StringToNumber str =
     (let s = trim str in
      if s = [] then Fin 0
      else if startsWith s ''0x'' \<or> startsWith s ''0X'' then radix_literal 16 (drop 2 s)
      else if startsWith s ''0o'' \<or> startsWith s ''0O'' then radix_literal 8 (drop 2 s)
      else if startsWith s ''0b'' \<or> startsWith s ''0B'' then radix_literal 2 (drop 2 s)
      else if hd s = CHR ''-'' then js_neg (StrUnsignedDecimalLiteral (tl s))
      else if hd s = CHR ''+'' then StrUnsignedDecimalLiteral (tl s)
      else StrUnsignedDecimalLiteral s)"

fun Number_js :: "jsval \<Rightarrow> jsnum" where
  "Number_js JUndefined = NaN"
| "Number_js JNull = Fin 0"
| "Number_js (JBool b) = Fin (if b then 1 else 0)"
| "Number_js (JNum n) = n"
| "Number_js (JStr s) = StringToNumber s"

section \<open>Phone number normalisation\<close>

text \<open>
  \<^verbatim>\<open>
  formatPhoneNumber(phoneNumber) {
    const cleaned = phoneNumber.toString().replace(/\D/g, "");
    if (cleaned.startsWith("254")) {
      return parseInt(cleaned);
    } else if (cleaned.startsWith("0")) {
      return parseInt(`254${cleaned.slice(1)}`);
    } else {
      return parseInt(`254${cleaned}`);
    }
  }
  \<close>
  The phone number is a string. \<open>parseInt\<close> is only applied to a non-empty string of
  decimal digits (it starts with \<open>254\<close> in each branch), where it returns the number the
  digits denote.
\<close>

definition cleaned_digits :: "string \<Rightarrow> string" where
  "cleaned_digits phoneNumber = filter is_digit phoneNumber"

definition formatPhoneNumber :: "string \<Rightarrow> nat" where
  "formatPhoneNumber phoneNumber =
     (let cleaned = cleaned_digits phoneNumber in
      if startsWith cleaned ''254'' then digits_to_nat cleaned
      else if startsWith cleaned ''0'' then digits_to_nat (''254'' @ drop 1 cleaned)
      else digits_to_nat (''254'' @ cleaned))"

section \<open>The upstream gateway\<close>

text \<open>
  An error object as the code inspects it: \<open>error.message\<close>, \<open>error.code\<close> (set by the
  HTTP client, \<open>ECONNABORTED\<close> on a timeout) and \<open>error.response?.data?.errorMessage\<close>
  (set when the gateway answered with an error body). \<open>new Error(m)\<close> has the message
  only.
\<close>

record js_error =
  err_message :: string
  err_code :: "string option"
  err_errorMessage :: "string option"

definition Error :: "string \<Rightarrow> js_error" where
  "Error m = \<lparr>err_message = m, err_code = None, err_errorMessage = None\<rparr>"

text \<open>
  The body of the charge request and the gateway's answer to it. Of the request the
  model keeps the fields computed from the arguments; \<open>BusinessShortCode\<close>, \<open>Password\<close>,
  \<open>Timestamp\<close>, \<open>PartyB\<close> and \<open>CallBackURL\<close> come from the configuration and the clock
  and \<open>TransactionType\<close> is a constant.
\<close>

record stk_request =
  Amount :: jsnum
  PartyA :: nat
  PhoneNumber :: nat
  AccountReference :: string
  TransactionDesc :: string

record stk_response =
  ResponseCode :: jsval
  MerchantRequestID :: jsval
  CheckoutRequestID :: jsval
  ResponseDescription :: string
  CustomerMessage :: jsval

record reversal_request =
  rq_TransactionID :: jsval
  rq_Amount :: jsnum
  rq_Remarks :: string
  rq_Occasion :: string

record reversal_response =
  rr_ResponseCode :: jsval
  rr_OriginatorConversationID :: jsval
  rr_ConversationID :: jsval
  rr_ResponseDescription :: string

text \<open>
  The world outside the process: what the credential exchange yields (the message of the
  error of the last attempt, or the token; the cache and the retry loop of
  \<open>generateAccessToken\<close> are inside this outcome) and how the gateway answers a charge
  request and a reversal request (an error of the HTTP client, or the response body).
\<close>

record gateway =
  token_fetch :: "string + string"
  stk_post :: "stk_request \<Rightarrow> js_error + stk_response"
  reversal_post :: "reversal_request \<Rightarrow> js_error + reversal_response"

definition generateAccessToken :: "gateway \<Rightarrow> js_error + string" where
  "generateAccessToken g =
     (case token_fetch g of
        Inl m \<Rightarrow> Inl (Error (''Failed to generate access token: '' @ m))
      | Inr access_token \<Rightarrow> Inr access_token)"

section \<open>Charge initiation\<close>

text \<open>
  \<open>initiateSTKPush(phoneNumber, amount, contributionId)\<close>. The phone number and the
  contribution id are strings, the amount is any value. The function returns the
  requests it posted to the gateway together with its result: \<open>Inl\<close> the error it
  throws, \<open>Inr\<close> the accepted response. \<open>initiateSTKPush_try\<close> is the \<open>try\<close> block and
  \<open>stk_error_mapping\<close> the \<open>catch\<close> block, which rethrows every error under a new
  message.
\<close>

definition initiateSTKPush_try ::
  "gateway \<Rightarrow> string \<Rightarrow> jsval \<Rightarrow> string \<Rightarrow> stk_request list \<times> (js_error + stk_response)" where
  "initiateSTKPush_try g phoneNumber amount contributionId =
     (if phoneNumber = [] \<or> \<not> truthy amount \<or> contributionId = []
      then ([], Inl (Error ''Missing required parameters for STK push''))
      else
        let numericAmount = Math_floor (Number_js amount) in
        if js_lt numericAmount (Fin 1) \<or> js_gt numericAmount (Fin 300000)
        then ([], Inl (Error ''Invalid amount: must be between 1 and 300,000 KES''))
        else
          case generateAccessToken g of
            Inl e \<Rightarrow> ([], Inl e)
          | Inr accessToken \<Rightarrow>
              let formattedPhone = formatPhoneNumber phoneNumber;
                  paymentRequest =
                    \<lparr>Amount = numericAmount,
                     PartyA = formattedPhone,
                     PhoneNumber = formattedPhone,
                     AccountReference = ''CONTRIBUTION_'' @ contributionId,
                     TransactionDesc = ''Campaign Contribution - '' @ contributionId\<rparr>
              in case stk_post g paymentRequest of
                   Inl e \<Rightarrow> ([paymentRequest], Inl e)
                 | Inr response \<Rightarrow>
                     if ResponseCode response = JStr ''0''
                     then ([paymentRequest], Inr response)
                     else ([paymentRequest],
                           Inl (Error (''MPesa Error: '' @
                             (if ResponseDescription response = [] then ''Unknown error''
                              else ResponseDescription response)))))"

definition stk_error_mapping :: "js_error \<Rightarrow> js_error" where
  "stk_error_mapping e =
     (if err_code e = Some ''ECONNABORTED''
      then Error ''M-Pesa service timeout - please try again''
      else case err_errorMessage e of
             Some m \<Rightarrow> if m \<noteq> [] then Error m
                       else Error (''Payment initiation failed: '' @ err_message e)
           | None \<Rightarrow> Error (''Payment initiation failed: '' @ err_message e))"

definition initiateSTKPush ::
  "gateway \<Rightarrow> string \<Rightarrow> jsval \<Rightarrow> string \<Rightarrow> stk_request list \<times> (js_error + stk_response)" where
  "initiateSTKPush g phoneNumber amount contributionId =
     (case initiateSTKPush_try g phoneNumber amount contributionId of
        (posted, Inl e) \<Rightarrow> (posted, Inl (stk_error_mapping e))
      | (posted, Inr response) \<Rightarrow> (posted, Inr response))"

section \<open>The store\<close>

text \<open>
  The handlers read and write two tables of the hosted database through its query
  client: \<open>contributions\<close> and \<open>campaigns\<close>. A table is the list of its rows. The status
  column holds one of the six texts the code writes and compares with. Amounts are the
  decimal numbers of the columns, as exact rationals. A nullable column is an option; a
  text column filled from a callback keeps the value written to it; \<open>result_desc\<close>,
  which the charge handler fills from a template string, keeps the list of the pieces
  of the template. Time stamps are the clock reading in milliseconds.

  The SQL files of the repository declare two things on the database side that decide
  what a write does to a funding total: the row trigger \<open>update_campaign_funding\<close> on
  the contributions (\<open>migrations/update_contributions_table.sql\<close>, the schema with the
  columns the handlers write) and the constraint \<open>CHECK (current_funding >= 0)\<close> of the
  campaigns table. Another schema file (\<open>database/schema.sql\<close>) creates both tables
  without them, so the store records which are installed: \<open>funding_trigger\<close> and
  \<open>funding_check\<close>. The database of the migrations has both. The constraint
  \<open>CHECK (amount > 0)\<close> of the contributions is not part of the model: the amount of
  a row is any rational.
\<close>

datatype status = Pending | Completed | Failed | RefundPending | Refunded | RefundFailed

fun status_text :: "status \<Rightarrow> string" where
  "status_text Pending = ''pending''"
| "status_text Completed = ''completed''"
| "status_text Failed = ''failed''"
| "status_text RefundPending = ''refund_pending''"
| "status_text Refunded = ''refunded''"
| "status_text RefundFailed = ''refund_failed''"

record contribution =
  contribution_id :: string
  campaign_id :: string
  amount :: rat
  status :: status
  payment_method :: string
  transaction_id :: "jsval option"
  mpesa_checkout_request_id :: "jsval option"
  merchant_request_id :: "jsval option"
  mpesa_phone_number :: "jsval option"
  result_code :: "jsval option"
  result_desc :: "jsval list"
  created_at :: nat
  updated_at :: "nat option"
  processed_at :: "nat option"
  refunded_at :: "nat option"
  refund_reason :: "string option"
  refund_error :: "string option"
  refund_initiated_at :: "nat option"
  refund_estimated_completion :: "nat option"
  reversal_conversation_id :: "jsval option"
  reversal_originator_conversation_id :: "jsval option"
  reversal_result_code :: "jsval option"
  reversal_result_desc :: "jsval option"

record campaign =
  campaign_key :: string
  current_funding :: "rat option"
  campaign_updated_at :: "nat option"

record store =
  contributions :: "contribution list"
  campaigns :: "campaign list"
  funding_trigger :: bool
  funding_check :: bool

text \<open>
  \<open>.single()\<close> turns the rows a query selects into one row, and reports an error unless
  there is exactly one. A property whose value is \<open>undefined\<close> is dropped from the body
  of an update, so the column keeps its value; \<open>null\<close> clears it.
\<close>

fun single :: "'a list \<Rightarrow> 'a option" where
  "single [x] = Some x"
| "single _ = None"

fun write_col :: "jsval \<Rightarrow> jsval option \<Rightarrow> jsval option" where
  "write_col JUndefined old = old"
| "write_col JNull old = None"
| "write_col v old = Some v"

fun write_text :: "jsval \<Rightarrow> jsval list \<Rightarrow> jsval list" where
  "write_text JUndefined old = old"
| "write_text JNull old = []"
| "write_text v old = [v]"

subsection \<open>Writes to a funding total\<close>

text \<open>
  \<open>UPDATE campaigns SET current_funding = v(current_funding), updated_at = NOW() WHERE id = k\<close>.
  Where the constraint \<open>CHECK (current_funding >= 0)\<close> is installed and a row would get
  a negative total, the statement fails and writes nothing (\<open>None\<close>); a total that is
  \<open>NULL\<close> passes the constraint.
\<close>

definition write_funding ::
  "bool \<Rightarrow> nat \<Rightarrow> string \<Rightarrow> (rat option \<Rightarrow> rat option) \<Rightarrow> campaign list \<Rightarrow> campaign list option" where
  "write_funding check now campaignId v rows =
     (if check \<and>
         list_ex (\<lambda>r. campaign_key r = campaignId \<and>
                       (case v (current_funding r) of None \<Rightarrow> False | Some f \<Rightarrow> f < 0)) rows
      then None
      else Some (map (\<lambda>r. if campaign_key r = campaignId
                            then r\<lparr>current_funding := v (current_funding r),
                                   campaign_updated_at := Some now\<rparr>
                            else r) rows))"

subsection \<open>The trigger on the contributions\<close>

text \<open>
  \<^verbatim>\<open>
  CREATE OR REPLACE FUNCTION update_campaign_funding() RETURNS TRIGGER AS $$
  BEGIN
      IF NEW.status = 'completed' AND (OLD IS NULL OR OLD.status != 'completed') THEN
          UPDATE campaigns SET current_funding = current_funding + NEW.amount,
              updated_at = NOW() WHERE id = NEW.campaign_id;
      END IF;
      IF NEW.status = 'refunded' AND (OLD IS NULL OR OLD.status != 'refunded') THEN
          UPDATE campaigns SET current_funding = GREATEST(current_funding - NEW.amount, 0),
              updated_at = NOW() WHERE id = NEW.campaign_id;
      END IF;
      IF OLD IS NOT NULL AND OLD.status = 'completed' AND NEW.status = 'failed' THEN
          UPDATE campaigns SET current_funding = GREATEST(current_funding - NEW.amount, 0),
              updated_at = NOW() WHERE id = NEW.campaign_id;
      END IF;
      RETURN NEW;
  END;
  CREATE TRIGGER trigger_update_campaign_funding AFTER INSERT OR UPDATE ON contributions
      FOR EACH ROW EXECUTE FUNCTION update_campaign_funding();
  \<close>
  The handlers of the model only update rows, so \<open>OLD\<close> is a row. A sum with \<open>NULL\<close>
  is \<open>NULL\<close>, and \<open>GREATEST\<close> ignores a \<open>NULL\<close> argument. Each of the three updates is
  subject to the constraint of the campaigns table; where one fails, the trigger fails.
\<close>

definition sql_credit :: "rat \<Rightarrow> rat option \<Rightarrow> rat option" where
  "sql_credit amt current = (case current of None \<Rightarrow> None | Some f \<Rightarrow> Some (f + amt))"

definition sql_debit_greatest :: "rat \<Rightarrow> rat option \<Rightarrow> rat option" where
  "sql_debit_greatest amt current =
     (case current of None \<Rightarrow> Some 0 | Some f \<Rightarrow> Some (max (f - amt) 0))"

definition update_campaign_funding ::
  "bool \<Rightarrow> nat \<Rightarrow> contribution \<Rightarrow> contribution \<Rightarrow> campaign list \<Rightarrow> campaign list option" where
  "update_campaign_funding check now OLD NEW rows =
     Option.bind
       (if status NEW = Completed \<and> status OLD \<noteq> Completed
        then write_funding check now (campaign_id NEW) (sql_credit (amount NEW)) rows
        else Some rows)
       (\<lambda>rows1.
          Option.bind
            (if status NEW = Refunded \<and> status OLD \<noteq> Refunded
             then write_funding check now (campaign_id NEW) (sql_debit_greatest (amount NEW)) rows1
             else Some rows1)
            (\<lambda>rows2.
               if status OLD = Completed \<and> status NEW = Failed
               then write_funding check now (campaign_id NEW) (sql_debit_greatest (amount NEW)) rows2
               else Some rows2))"

text \<open>The trigger is fired for each of the rows a statement updates, one after the other.\<close>

fun fire_row_triggers ::
  "bool \<Rightarrow> nat \<Rightarrow> (contribution \<Rightarrow> contribution) \<Rightarrow> contribution list \<Rightarrow> campaign list \<Rightarrow> campaign list option" where
  "fire_row_triggers check now f [] rows = Some rows"
| "fire_row_triggers check now f (c # cs) rows =
     Option.bind (update_campaign_funding check now c (f c) rows) (fire_row_triggers check now f cs)"

text \<open>
  \<open>.update(f).eq('id', i)\<close> on the contributions, at clock reading \<open>now\<close>. The result is
  whether the statement reported an error, and the store it left. Where the trigger is
  installed and fails, the whole statement is undone: no row and no total changes, and
  the error is reported to the caller.
\<close>

definition update_contribution ::
  "nat \<Rightarrow> string \<Rightarrow> (contribution \<Rightarrow> contribution) \<Rightarrow> store \<Rightarrow> bool \<times> store" where
  "update_contribution now i f st =
     (let written = map (\<lambda>c. if contribution_id c = i then f c else c) (contributions st) in
      if funding_trigger st then
        (case fire_row_triggers (funding_check st) now f
                (filter (\<lambda>c. contribution_id c = i) (contributions st)) (campaigns st) of
           None \<Rightarrow> (True, st)
         | Some rows \<Rightarrow> (False, st\<lparr>contributions := written, campaigns := rows\<rparr>))
      else (False, st\<lparr>contributions := written\<rparr>))"

section \<open>The campaign ledger\<close>

text \<open>
  \<^verbatim>\<open>
  async updateCampaignFunding(campaignId, amount) {
    const { error } = await supabase.rpc('increment_campaign_funding', {
      campaign_id: campaignId, amount_to_add: amount }).single();
    if (error) {
      const { data: campaign } = await supabase.from("campaigns")
        .select("current_funding").eq("id", campaignId).single();
      if (campaign) {
        await supabase.from("campaigns").update({
            current_funding: (campaign.current_funding || 0) + amount,
            updated_at: new Date().toISOString(),
          }).eq("id", campaignId);
      }
    }
  }
  \<close>
  The database function \<open>increment_campaign_funding\<close> is defined by none of the SQL files
  of the repository, so it is a parameter: given the campaign id, the amount and the
  campaign rows it returns whether the call reported an error, and the rows it left.
  \<open>rpc_missing\<close> is the database of the repository's own SQL files, where the call
  reports an error and changes nothing. The fallback update is subject to the
  constraint of the campaigns table; its outcome is not read, so a write that the
  constraint refuses leaves the total as it was.
\<close>

type_synonym rpc = "string \<Rightarrow> rat \<Rightarrow> campaign list \<Rightarrow> bool \<times> campaign list"

definition rpc_missing :: rpc where
  "rpc_missing campaignId amount_to_add rows = (True, rows)"

definition funding_or_zero :: "rat option \<Rightarrow> rat" where
  "funding_or_zero v = (case v of None \<Rightarrow> 0 | Some x \<Rightarrow> x)"

definition updateCampaignFunding :: "rpc \<Rightarrow> nat \<Rightarrow> string \<Rightarrow> rat \<Rightarrow> store \<Rightarrow> store" where
  "updateCampaignFunding rpc now campaignId amt st =
     (case rpc campaignId amt (campaigns st) of
        (error, rows1) \<Rightarrow>
          if error then
            (case single (filter (\<lambda>r. campaign_key r = campaignId) rows1) of
               None \<Rightarrow> st\<lparr>campaigns := rows1\<rparr>
             | Some campaign \<Rightarrow>
                 (case write_funding (funding_check st) now campaignId
                         (\<lambda>current. Some (funding_or_zero (current_funding campaign) + amt)) rows1 of
                    None \<Rightarrow> st\<lparr>campaigns := rows1\<rparr>
                  | Some rows2 \<Rightarrow> st\<lparr>campaigns := rows2\<rparr>))
          else st\<lparr>campaigns := rows1\<rparr>)"

text \<open>The funding total of a campaign, as a reader of the table sees it.\<close>

definition funding_of :: "store \<Rightarrow> string \<Rightarrow> rat option" where
  "funding_of st campaignId =
     (case single (filter (\<lambda>r. campaign_key r = campaignId) (campaigns st)) of
        None \<Rightarrow> None
      | Some campaign \<Rightarrow> Some (funding_or_zero (current_funding campaign)))"

section \<open>The charge callback\<close>

text \<open>
  The payload the gateway posts after a charge: \<open>Body.stkCallback\<close> with the checkout
  request id, the result code and description, and \<open>CallbackMetadata.Item\<close>, a list of
  name and value pairs (empty when the metadata is absent). \<open>cb_test\<close> is the property
  \<open>test\<close> of connectivity probes.
\<close>

record stkCallback =
  cb_CheckoutRequestID :: jsval
  cb_ResultCode :: jsval
  cb_ResultDesc :: jsval
  cb_Item :: "(string \<times> jsval) list"

record charge_callback =
  cb_test :: jsval
  cb_stkCallback :: "stkCallback option"

text \<open>
  \<open>parseCallbackMetadata\<close> walks the items in order, a later item of a name replacing an
  earlier one. The fields \<open>amount\<close> and \<open>balance\<close> it also fills are read by nobody and
  are left out.
\<close>

record transaction_details =
  td_mpesaReceiptNumber :: jsval
  td_transactionDate :: jsval
  td_phoneNumber :: jsval

definition parse_item :: "transaction_details \<Rightarrow> string \<times> jsval \<Rightarrow> transaction_details" where
  "parse_item details item =
     (if fst item = ''MpesaReceiptNumber'' then details\<lparr>td_mpesaReceiptNumber := snd item\<rparr>
      else if fst item = ''TransactionDate'' then details\<lparr>td_transactionDate := snd item\<rparr>
      else if fst item = ''PhoneNumber'' then details\<lparr>td_phoneNumber := snd item\<rparr>
      else details)"

definition parseCallbackMetadata :: "(string \<times> jsval) list \<Rightarrow> transaction_details" where
  "parseCallbackMetadata items =
     foldl parse_item
       \<lparr>td_mpesaReceiptNumber = JNull, td_transactionDate = JNull, td_phoneNumber = JNull\<rparr>
       items"

text \<open>Of the object a callback handler returns, the model keeps \<open>success\<close> and \<open>message\<close>.\<close>

record cb_result =
  res_success :: bool
  res_message :: string

text \<open>\<open>charge_update\<close> is the effect of \<open>updateData\<close> on the row it is written to.\<close>

definition charge_update ::
  "nat \<Rightarrow> stkCallback \<Rightarrow> transaction_details \<Rightarrow> contribution \<Rightarrow> contribution" where
  "charge_update now callback details c =
     (if cb_ResultCode callback = JNum (Fin 0) then
        c\<lparr>result_code := Some (cb_ResultCode callback),
          result_desc :=
            (if truthy (td_transactionDate details)
             then [cb_ResultDesc callback, JStr '' | Transaction Date: '', td_transactionDate details]
             else write_text (cb_ResultDesc callback) (result_desc c)),
          updated_at := Some now,
          status := Completed,
          processed_at := Some now,
          transaction_id :=
            (if truthy (td_mpesaReceiptNumber details) then Some (td_mpesaReceiptNumber details)
             else transaction_id c),
          mpesa_phone_number :=
            (if truthy (td_phoneNumber details) then Some (td_phoneNumber details)
             else mpesa_phone_number c)\<rparr>
      else
        c\<lparr>result_code := Some (cb_ResultCode callback),
          result_desc := write_text (cb_ResultDesc callback) (result_desc c),
          updated_at := Some now,
          status := Failed\<rparr>)"

text \<open>
  \<open>handleContributionCallback(callbackData)\<close>, run at clock reading \<open>now\<close> on the store.
  \<open>ResultCode.toString()\<close> is evaluated after the contribution was found and before
  anything is written; where it raises, the \<open>catch\<close> block returns a failure. Of the two
  operations handed to \<open>Promise.all\<close> the model runs the update of the row first and the
  ledger update second; what the update of the row reports, an error included, is not
  read.
\<close>

definition handleContributionCallback ::
  "rpc \<Rightarrow> nat \<Rightarrow> charge_callback \<Rightarrow> store \<Rightarrow> cb_result \<times> store" where
  "handleContributionCallback rpc now callbackData st =
     (if truthy (cb_test callbackData)
      then (\<lparr>res_success = True, res_message = ''Test callback received''\<rparr>, st)
      else
        case cb_stkCallback callbackData of
          None \<Rightarrow> (\<lparr>res_success = False, res_message = ''Invalid callback format''\<rparr>, st)
        | Some callback \<Rightarrow>
            if \<not> truthy (cb_CheckoutRequestID callback)
            then (\<lparr>res_success = False, res_message = ''Missing CheckoutRequestID''\<rparr>, st)
            else
              let transactionDetails = parseCallbackMetadata (cb_Item callback) in
              case single (filter (\<lambda>c. mpesa_checkout_request_id c = Some (cb_CheckoutRequestID callback))
                             (contributions st)) of
                None \<Rightarrow> (\<lparr>res_success = False, res_message = ''Contribution not found''\<rparr>, st)
              | Some contribution \<Rightarrow>
                  if \<not> has_toString (cb_ResultCode callback)
                  then (\<lparr>res_success = False, res_message = ''Callback processing failed''\<rparr>, st)
                  else
                    let st1 = snd (update_contribution now (contribution_id contribution)
                                     (charge_update now callback transactionDetails) st);
                        st2 = (if cb_ResultCode callback = JNum (Fin 0) \<and> status contribution \<noteq> Completed
                               then updateCampaignFunding rpc now (campaign_id contribution)
                                      (amount contribution) st1
                               else st1)
                    in (\<lparr>res_success = True, res_message = ''Callback processed successfully''\<rparr>, st2))"

section \<open>The reversal callback\<close>

text \<open>
  The class \<open>MPesa\<close> defines \<open>handleReversalCallback\<close> twice, and
  \<open>parseReversalResultParameters\<close> twice. In a class body the later definition of a
  method name replaces the earlier one, so the methods that run are the second ones,
  modelled here. Of the parsed parameters the handler reads \<open>originalTransactionID\<close>
  only, which is what the parser returns in the model.
\<close>

record reversal_result =
  rv_ResultCode :: jsval
  rv_ResultDesc :: jsval
  rv_OriginatorConversationID :: jsval
  rv_ConversationID :: jsval
  rv_TransactionID :: jsval
  rv_ResultParameter :: "(string \<times> jsval) list"

definition parseReversalResultParameters :: "(string \<times> jsval) list \<Rightarrow> jsval" where
  "parseReversalResultParameters params =
     foldl (\<lambda>originalTransactionID param.
              if fst param = ''OriginalTransactionID'' then snd param else originalTransactionID)
       JNull params"

definition reversal_update :: "nat \<Rightarrow> reversal_result \<Rightarrow> contribution \<Rightarrow> contribution" where
  "reversal_update now Result c =
     (if rv_ResultCode Result = JNum (Fin 0) then
        c\<lparr>updated_at := Some now,
          reversal_conversation_id := write_col (rv_ConversationID Result) (reversal_conversation_id c),
          reversal_result_code := Some (rv_ResultCode Result),
          reversal_result_desc := write_col (rv_ResultDesc Result) (reversal_result_desc c),
          status := Refunded,
          refunded_at := Some now\<rparr>
      else
        c\<lparr>updated_at := Some now,
          reversal_conversation_id := write_col (rv_ConversationID Result) (reversal_conversation_id c),
          reversal_result_code := Some (rv_ResultCode Result),
          reversal_result_desc := write_col (rv_ResultDesc Result) (reversal_result_desc c)\<rparr>)"

text \<open>
  \<open>handleReversalCallback(callbackData)\<close>; the argument is \<open>callbackData.Result\<close>. This
  handler reads the outcome of the update of the row: on an error it throws, and its
  \<open>catch\<close> block returns a failure before the ledger is touched.
\<close>

definition handleReversalCallback ::
  "rpc \<Rightarrow> nat \<Rightarrow> reversal_result option \<Rightarrow> store \<Rightarrow> cb_result \<times> store" where
  "handleReversalCallback rpc now callbackData st =
     (case callbackData of
        None \<Rightarrow> (\<lparr>res_success = False, res_message = ''Invalid reversal callback format''\<rparr>, st)
      | Some Result \<Rightarrow>
          let originalTransactionID = parseReversalResultParameters (rv_ResultParameter Result) in
          case single (filter (\<lambda>c. transaction_id c =
                                   Some (js_or originalTransactionID (rv_TransactionID Result)))
                         (contributions st)) of
            None \<Rightarrow> (\<lparr>res_success = False, res_message = ''Original contribution not found''\<rparr>, st)
          | Some contribution \<Rightarrow>
              if \<not> has_toString (rv_ResultCode Result)
              then (\<lparr>res_success = False, res_message = ''Reversal callback processing failed''\<rparr>, st)
              else
                case update_contribution now (contribution_id contribution)
                       (reversal_update now Result) st of
                  (updateError, st1) \<Rightarrow>
                    if updateError
                    then (\<lparr>res_success = False,
                           res_message = ''Reversal callback processing failed''\<rparr>, st)
                    else
                      let st2 = (if rv_ResultCode Result = JNum (Fin 0)
                                 then updateCampaignFunding rpc now (campaign_id contribution)
                                        (- amount contribution) st1
                                 else st1)
                      in (\<lparr>res_success = True,
                           res_message = ''Reversal callback processed successfully''\<rparr>, st2))"

section \<open>Reversal initiation\<close>

text \<open>
  \<^verbatim>\<open>
  async initiateReversal(transactionId, amount, remarks = 'Admin initiated refund') {
    try {
      const accessToken = await this.generateAccessToken();
      const numericAmount = Math.floor(Number(amount));
      if (numericAmount < 1 || numericAmount > 300000) { throw new Error(...); }
      ...
      const reversalRequest = {
        ...
        Remarks: remarks.substring(0, 100), // Max 100 characters
        Occasion: occasion.substring(0, 100) // Optional but recommended, max 100 characters
      };
      const response = await this.axiosInstance.post(..., reversalRequest, ...);
      ...
  \<close>
  The request body reads a variable \<open>occasion\<close>. The parameters of the method are
  \<open>transactionId\<close>, \<open>amount\<close> and \<open>remarks\<close>, its body declares no \<open>occasion\<close> and neither
  does the module (the sibling method \<open>reverseTransaction\<close> has it as its fourth
  parameter). \<open>occasion_binding\<close> is the outcome of resolving the name: there is no
  binding, and evaluating the name raises the ReferenceError
  \<open>occasion is not defined\<close>, inside the \<open>try\<close> block.
\<close>

definition occasion_binding :: "string option" where
  "occasion_binding = None"

definition initiateReversal_try ::
  "gateway \<Rightarrow> jsval \<Rightarrow> jsval \<Rightarrow> string \<Rightarrow> reversal_request list \<times> (js_error + reversal_response)" where
  "initiateReversal_try g transactionId amt remarks =
     (case generateAccessToken g of
        Inl e \<Rightarrow> ([], Inl e)
      | Inr accessToken \<Rightarrow>
          let numericAmount = Math_floor (Number_js amt) in
          if js_lt numericAmount (Fin 1) \<or> js_gt numericAmount (Fin 300000)
          then ([], Inl (Error ''Invalid reversal amount: must be between 1 and 300,000 KES''))
          else
            case occasion_binding of
              None \<Rightarrow> ([], Inl (Error ''occasion is not defined''))
            | Some occasion \<Rightarrow>
                let reversalRequest =
                      \<lparr>rq_TransactionID = transactionId,
                       rq_Amount = numericAmount,
                       rq_Remarks = take 100 remarks,
                       rq_Occasion = take 100 occasion\<rparr>
                in case reversal_post g reversalRequest of
                     Inl e \<Rightarrow> ([reversalRequest], Inl e)
                   | Inr response \<Rightarrow>
                       if rr_ResponseCode response = JStr ''0''
                       then ([reversalRequest], Inr response)
                       else ([reversalRequest],
                             Inl (Error (''M-Pesa Reversal Error: '' @
                               (if rr_ResponseDescription response = [] then ''Unknown error''
                                else rr_ResponseDescription response)))))"

definition reversal_error_mapping :: "js_error \<Rightarrow> js_error" where
  "reversal_error_mapping e =
     (if err_code e = Some ''ECONNABORTED''
      then Error ''M-Pesa reversal service timeout - please try again''
      else case err_errorMessage e of
             Some m \<Rightarrow> if m \<noteq> [] then Error m
                       else Error (''Reversal initiation failed: '' @ err_message e)
           | None \<Rightarrow> Error (''Reversal initiation failed: '' @ err_message e))"

definition initiateReversal ::
  "gateway \<Rightarrow> jsval \<Rightarrow> jsval \<Rightarrow> string \<Rightarrow> reversal_request list \<times> (js_error + reversal_response)" where
  "initiateReversal g transactionId amt remarks =
     (case initiateReversal_try g transactionId amt remarks of
        (posted, Inl e) \<Rightarrow> (posted, Inl (reversal_error_mapping e))
      | (posted, Inr response) \<Rightarrow> (posted, Inr response))"

section \<open>The route handlers\<close>

record http_reply =
  reply_status :: nat
  reply_text :: string
  reply_can_retry :: "bool option"

text \<open>
  The branch of the refund route for a contribution that was not paid through the
  gateway (or has no settled transaction id): the row is marked refunded at once and
  the campaign total is lowered, clamped at zero by \<open>Math.max(0, ...)\<close>. The route
  reads the outcome of none of its updates.
\<close>

definition refund_without_gateway ::
  "nat \<Rightarrow> string \<Rightarrow> string \<Rightarrow> contribution \<Rightarrow> store \<Rightarrow> http_reply \<times> store" where
  "refund_without_gateway now i reason contribution st =
     (let st1 = snd (update_contribution now i
                       (\<lambda>c. c\<lparr>status := Refunded,
                              refund_reason := Some reason,
                              refunded_at := Some now,
                              updated_at := Some now\<rparr>) st);
          st2 = (if campaign_id contribution = [] then st1
                 else case single (filter (\<lambda>r. campaign_key r = campaign_id contribution)
                                     (campaigns st1)) of
                        None \<Rightarrow> st1
                      | Some campaign \<Rightarrow>
                          (case write_funding (funding_check st1) now (campaign_id contribution)
                                  (\<lambda>current. Some (max 0 (funding_or_zero (current_funding campaign)
                                                            - amount contribution)))
                                  (campaigns st1) of
                             None \<Rightarrow> st1
                           | Some rows \<Rightarrow> st1\<lparr>campaigns := rows\<rparr>))
      in (\<lparr>reply_status = 200, reply_text = ''Contribution refunded successfully'',
           reply_can_retry = None\<rparr>, st2))"

text \<open>
  \<open>POST /contributions/:id/refund\<close> of the admin routes, with the id of the request path
  and the reason of the request body (a string; \<open>Admin initiated refund\<close> when the body
  has none).
\<close>

definition post_contribution_refund ::
  "gateway \<Rightarrow> nat \<Rightarrow> string \<Rightarrow> string \<Rightarrow> store \<Rightarrow> http_reply \<times> store" where
  "post_contribution_refund g now i reason st =
     (case single (filter (\<lambda>c. contribution_id c = i) (contributions st)) of
        None \<Rightarrow> (\<lparr>reply_status = 404, reply_text = ''Contribution not found'',
                  reply_can_retry = None\<rparr>, st)
      | Some contribution \<Rightarrow>
          if status contribution \<noteq> Completed
          then (\<lparr>reply_status = 400, reply_text = ''Only completed contributions can be refunded'',
                 reply_can_retry = None\<rparr>, st)
          else if status contribution \<in> {Refunded, RefundPending, RefundFailed}
          then (\<lparr>reply_status = 400, reply_text = ''Contribution is already '' @ status_text (status contribution),
                 reply_can_retry = None\<rparr>, st)
          else
            case (if payment_method contribution = ''mpesa'' then transaction_id contribution
                  else None) of
              Some transactionId \<Rightarrow>
                if truthy transactionId then
                  (case snd (initiateReversal g transactionId (JNum (Fin (amount contribution))) reason) of
                     Inr reversalResult \<Rightarrow>
                       (\<lparr>reply_status = 200,
                         reply_text = ''M-Pesa reversal initiated successfully. Processing will complete automatically via callback.'',
                         reply_can_retry = None\<rparr>,
                        snd (update_contribution now i
                          (\<lambda>c. c\<lparr>status := RefundPending,
                                 reversal_conversation_id :=
                                   write_col (rr_ConversationID reversalResult) (reversal_conversation_id c),
                                 reversal_originator_conversation_id :=
                                   write_col (rr_OriginatorConversationID reversalResult)
                                     (reversal_originator_conversation_id c),
                                 refund_reason := Some reason,
                                 refund_initiated_at := Some now,
                                 updated_at := Some now,
                                 refund_estimated_completion := Some (now + 10 * 60 * 1000)\<rparr>) st))
                   | Inl mpesaError \<Rightarrow>
                       (\<lparr>reply_status = 500, reply_text = ''M-Pesa reversal initiation failed'',
                         reply_can_retry = None\<rparr>,
                        snd (update_contribution now i
                          (\<lambda>c. c\<lparr>status := RefundFailed,
                                 refund_reason := Some reason,
                                 refund_error := Some (err_message mpesaError),
                                 refund_initiated_at := Some now,
                                 updated_at := Some now\<rparr>) st)))
                else refund_without_gateway now i reason contribution st
            | None \<Rightarrow> refund_without_gateway now i reason contribution st)"

text \<open>
  The payment step of \<open>POST /:id/contribute\<close> of the campaign routes: what the handler
  does once it has inserted the contribution row \<open>i\<close> with status \<open>pending\<close>. It calls
  \<open>initiateSTKPush(formattedPhone, Math.floor(amount), contribution.id)\<close> with the amount
  of the request body and, in its \<open>catch\<close> block, writes the failure to the row and
  chooses the reply.
\<close>

definition contribute_payment_step ::
  "gateway \<Rightarrow> nat \<Rightarrow> string \<Rightarrow> string \<Rightarrow> jsval \<Rightarrow> store \<Rightarrow> http_reply \<times> store" where
  "contribute_payment_step g now i formattedPhone amt st =
     (case snd (initiateSTKPush g formattedPhone (JNum (Math_floor (Number_js amt))) i) of
        Inr mpesaResponse \<Rightarrow>
          (\<lparr>reply_status = 200, reply_text = ''Payment initiated successfully'',
            reply_can_retry = None\<rparr>,
           snd (update_contribution now i
             (\<lambda>c. c\<lparr>merchant_request_id :=
                      write_col (MerchantRequestID mpesaResponse) (merchant_request_id c),
                    mpesa_checkout_request_id :=
                      write_col (CheckoutRequestID mpesaResponse) (mpesa_checkout_request_id c),
                    updated_at := Some now\<rparr>) st))
      | Inl mpesaError \<Rightarrow>
          let st1 = snd (update_contribution now i
                      (\<lambda>c. c\<lparr>status := Failed,
                             result_desc := [JStr (''M-Pesa initiation failed: '' @ err_message mpesaError)],
                             updated_at := Some now\<rparr>) st);
              statusCode =
                (if includes_js (err_message mpesaError) ''timeout'' then 504
                 else if includes_js (err_message mpesaError) ''Invalid Access Token'' then 503
                 else if includes_js (err_message mpesaError) ''Invalid phone number'' then 400
                 else 500 :: nat);
              userMessage =
                (if includes_js (err_message mpesaError) ''timeout''
                 then ''Payment service is currently slow. Please try again in a few minutes.''
                 else if includes_js (err_message mpesaError) ''Invalid Access Token''
                 then ''Payment service is temporarily unavailable. Please try again later.''
                 else if includes_js (err_message mpesaError) ''Invalid phone number''
                 then ''Invalid phone number format. Please check and try again.''
                 else ''Failed to initiate payment. Please try again.'')
          in (\<lparr>reply_status = statusCode, reply_text = userMessage,
               reply_can_retry = Some (statusCode \<ge> 500)\<rparr>, st1))"

section \<open>Sequences of requests\<close>

text \<open>
  The requests that write to the store, each with the clock reading at which it is
  handled: a charge callback, a reversal callback, a refund request of an administrator
  (gateway, id, reason), the payment step of a contribution (gateway, id of the row,
  phone number, amount) and a call of \<open>updateCampaignFunding\<close> by itself (campaign,
  signed amount: a credit or a debit). \<open>handle_requests\<close> handles a list of them one
  after the other.
\<close>

datatype request =
    ChargeCallback nat charge_callback
  | ReversalCallback nat "reversal_result option"
  | RefundRequest gateway nat string string
  | ContributePayment gateway nat string string jsval
  | LedgerUpdate nat string rat





section \<open>Outcomes and concrete inputs\<close>

text \<open>
  A call of an initiation operation is rejected before any request is submitted when it
  posted nothing to the gateway and threw an error.
\<close>

definition rejected_before_request :: "'a list \<times> (js_error + 'b) \<Rightarrow> bool" where
  "rejected_before_request out = (fst out = [] \<and> isl (snd out))"

text \<open>
  The inputs at which the properties below are evaluated: a gateway that hands out a
  token and accepts every request, and one whose charge endpoint times out; a store
  with one contribution of 100 to a campaign whose funding total is \<open>f\<close>, in a database
  with neither the trigger nor the constraint (\<open>demo_store\<close>) and in the database of
  the migrations, with both (\<open>repo_store\<close>); a charge callback and a reversal callback
  for that contribution with result code \<open>rc\<close>.
\<close>

definition demo_gateway :: gateway where
  "demo_gateway =
     \<lparr>token_fetch = Inr ''token'',
      stk_post = (\<lambda>req. Inr \<lparr>ResponseCode = JStr ''0'', MerchantRequestID = JStr ''MR1'',
                              CheckoutRequestID = JStr ''CO123'', ResponseDescription = ''Success'',
                              CustomerMessage = JStr ''Success''\<rparr>),
      reversal_post = (\<lambda>req. Inr \<lparr>rr_ResponseCode = JStr ''0'',
                                   rr_OriginatorConversationID = JStr ''OC1'',
                                   rr_ConversationID = JStr ''CV1'',
                                   rr_ResponseDescription = ''Accepted''\<rparr>)\<rparr>"

definition timeout_error :: js_error where
  "timeout_error =
     \<lparr>err_message = ''timeout of 30000ms exceeded'', err_code = Some ''ECONNABORTED'',
      err_errorMessage = None\<rparr>"

definition timeout_gateway :: gateway where
  "timeout_gateway = demo_gateway\<lparr>stk_post := (\<lambda>req. Inl timeout_error)\<rparr>"

definition demo_contribution :: contribution where
  "demo_contribution =
     \<lparr>contribution_id = ''c1'', campaign_id = ''camp1'', amount = 100, status = Pending,
      payment_method = ''mpesa'', transaction_id = None,
      mpesa_checkout_request_id = Some (JStr ''CO123''), merchant_request_id = Some (JStr ''MR1''),
      mpesa_phone_number = Some (JStr ''254712345678''), result_code = None, result_desc = [],
      created_at = 1000, updated_at = None, processed_at = None, refunded_at = None,
      refund_reason = None, refund_error = None, refund_initiated_at = None,
      refund_estimated_completion = None, reversal_conversation_id = None,
      reversal_originator_conversation_id = None, reversal_result_code = None,
      reversal_result_desc = None\<rparr>"

definition demo_store :: "status \<Rightarrow> jsval option \<Rightarrow> rat \<Rightarrow> store" where
  "demo_store s t f =
     \<lparr>contributions = [demo_contribution\<lparr>status := s, transaction_id := t\<rparr>],
      campaigns = [\<lparr>campaign_key = ''camp1'', current_funding = Some f,
                    campaign_updated_at = None\<rparr>],
      funding_trigger = False, funding_check = False\<rparr>"

definition repo_store :: "status \<Rightarrow> jsval option \<Rightarrow> rat \<Rightarrow> store" where
  "repo_store s t f = (demo_store s t f)\<lparr>funding_trigger := True, funding_check := True\<rparr>"

definition demo_stkCallback :: "jsval \<Rightarrow> stkCallback" where
  "demo_stkCallback rc =
     \<lparr>cb_CheckoutRequestID = JStr ''CO123'', cb_ResultCode = rc,
      cb_ResultDesc = JStr ''The service request is processed.'',
      cb_Item = [(''Amount'', JNum (Fin 100)), (''MpesaReceiptNumber'', JStr ''ABC1'')]\<rparr>"

definition demo_charge_callback :: "jsval \<Rightarrow> charge_callback" where
  "demo_charge_callback rc = \<lparr>cb_test = JUndefined, cb_stkCallback = Some (demo_stkCallback rc)\<rparr>"

definition demo_reversal_result :: "jsval \<Rightarrow> reversal_result" where
  "demo_reversal_result rc =
     \<lparr>rv_ResultCode = rc, rv_ResultDesc = JStr ''Reversal result'',
      rv_OriginatorConversationID = JStr ''OC1'', rv_ConversationID = JStr ''CV1'',
      rv_TransactionID = JStr ''XYZ9'',
      rv_ResultParameter = [(''OriginalTransactionID'', JStr ''ABC1'')]\<rparr>"

section \<open>Properties\<close>

subsection \<open>Evaluation\<close>

lemmas demo_defs = demo_gateway_def demo_contribution_def demo_store_def repo_store_def
  demo_stkCallback_def demo_charge_callback_def demo_reversal_result_def

lemmas handler_defs = handleContributionCallback_def handleReversalCallback_def
  parseCallbackMetadata_def parse_item_def parseReversalResultParameters_def
  charge_update_def reversal_update_def update_contribution_def updateCampaignFunding_def
  update_campaign_funding_def write_funding_def sql_credit_def sql_debit_greatest_def
  rpc_missing_def funding_or_zero_def funding_of_def has_toString_def js_or_def

lemma StringToNumber_abc: "StringToNumber ''abc'' = NaN"
  by (simp add: StringToNumber_def trim_def is_space_def startsWith_def
      StrUnsignedDecimalLiteral_def is_digit_def)

lemma formatPhoneNumber_demo: "formatPhoneNumber ''0712345678'' = 254712345678"
  by (simp add: formatPhoneNumber_def cleaned_digits_def is_digit_def startsWith_def
      digits_to_nat_def digit_val_def)

lemma floor_300000_half: "\<lfloor>600001 / 2 :: rat\<rfloor> = 300000"
  by (rule floor_unique) simp_all

subsection \<open>Lists and rows\<close>

lemma single_SomeD: "single xs = Some x \<Longrightarrow> xs = [x]"
  by (cases xs rule: single.cases) auto


lemma filter_id_distinct:
  assumes "distinct (map contribution_id xs)" and "c \<in> set xs"
  shows "filter (\<lambda>x. contribution_id x = contribution_id c) xs = [c]"
  using assms
proof (induction xs)
  case Nil
  then show ?case by simp
next
  case (Cons x xs)
  show ?case
  proof (cases "x = c")
    case True
    have "contribution_id c \<notin> contribution_id ` set xs"
      using Cons.prems(1) True by simp
    then have "\<forall>y\<in>set xs. contribution_id y \<noteq> contribution_id c"
      by (metis imageI)
    then have "filter (\<lambda>y. contribution_id y = contribution_id c) xs = []"
      by (simp add: filter_empty_conv)
    then show ?thesis using True by simp
  next
    case False
    then have "c \<in> set xs" using Cons.prems(2) by simp
    moreover have "contribution_id x \<noteq> contribution_id c"
      using Cons.prems(1) calculation by auto
    ultimately show ?thesis using Cons by simp
  qed
qed

subsection \<open>Writes to a funding total\<close>

lemma write_funding_unchecked:
  "write_funding False now k v rows =
     Some (map (\<lambda>r. if campaign_key r = k
                    then r\<lparr>current_funding := v (current_funding r), campaign_updated_at := Some now\<rparr>
                    else r) rows)"
  by (simp add: write_funding_def)

lemma write_funding_accepted:
  assumes "\<And>current. case v current of None \<Rightarrow> True | Some f \<Rightarrow> 0 \<le> f"
  shows "write_funding check now k v rows =
     Some (map (\<lambda>r. if campaign_key r = k
                    then r\<lparr>current_funding := v (current_funding r), campaign_updated_at := Some now\<rparr>
                    else r) rows)"
proof -
  have "\<not> (case v current of None \<Rightarrow> False | Some f \<Rightarrow> f < 0)" for current
    using assms [of current] by (simp split: option.splits)
  then show ?thesis by (simp add: write_funding_def list_ex_iff)
qed





subsection \<open>The trigger\<close>

lemma sql_debit_greatest_nonneg:
  "case sql_debit_greatest amt current of None \<Rightarrow> True | Some f \<Rightarrow> 0 \<le> f"
  by (simp add: sql_debit_greatest_def split: option.splits)

lemma trigger_same_status:
  assumes "status NEW = status OLD"
  shows "update_campaign_funding check now OLD NEW rows = Some rows"
  using assms by (auto simp: update_campaign_funding_def)

lemma trigger_no_credit:
  assumes "status NEW = Completed \<longrightarrow> status OLD = Completed"
  shows "update_campaign_funding check now OLD NEW rows \<noteq> None"
  using assms
  by (auto simp: update_campaign_funding_def write_funding_accepted [OF sql_debit_greatest_nonneg])


lemma fire_no_credit:
  assumes "\<And>c. status (f c) = Completed \<longrightarrow> status c = Completed"
  shows "fire_row_triggers check now f cs rows \<noteq> None"
proof (induction cs arbitrary: rows)
  case Nil
  show ?case by simp
next
  case (Cons c cs)
  obtain rows1 where "update_campaign_funding check now c (f c) rows = Some rows1"
    using trigger_no_credit [OF assms, of check now c rows] by auto
  then show ?case using Cons by simp
qed


subsection \<open>Updates of contribution rows\<close>

lemma update_contribution_flags [simp]:
  "funding_trigger (snd (update_contribution now i f st)) = funding_trigger st"
  "funding_check (snd (update_contribution now i f st)) = funding_check st"
  by (simp_all add: update_contribution_def Let_def split: option.splits)


lemma update_contribution_no_credit:
  assumes "\<And>c. status (f c) = Completed \<longrightarrow> status c = Completed"
  shows "fst (update_contribution now i f st) = False"
    and "contributions (snd (update_contribution now i f st)) =
           map (\<lambda>c. if contribution_id c = i then f c else c) (contributions st)"
proof -
  have "fire_row_triggers (funding_check st) now f
       (filter (\<lambda>c. contribution_id c = i) (contributions st)) (campaigns st) \<noteq> None"
    by (rule fire_no_credit [OF assms])
  then obtain rows where
    "fire_row_triggers (funding_check st) now f
       (filter (\<lambda>c. contribution_id c = i) (contributions st)) (campaigns st) = Some rows"
    by blast
  then show "fst (update_contribution now i f st) = False"
    and "contributions (snd (update_contribution now i f st)) =
           map (\<lambda>c. if contribution_id c = i then f c else c) (contributions st)"
    by (simp_all add: update_contribution_def Let_def)
qed


subsection \<open>The ledger updater\<close>

lemma updateCampaignFunding_flags [simp]:
  "funding_trigger (updateCampaignFunding rpc now k amt st) = funding_trigger st"
  "funding_check (updateCampaignFunding rpc now k amt st) = funding_check st"
  "contributions (updateCampaignFunding rpc now k amt st) = contributions st"
  by (simp_all add: updateCampaignFunding_def split: prod.splits option.splits)



subsection \<open>The handlers on a resolved callback\<close>

lemma charge_update_checkout [simp]:
  "mpesa_checkout_request_id (charge_update now callback details c) = mpesa_checkout_request_id c"
  by (simp add: charge_update_def)

lemma charge_update_status [simp]:
  "status (charge_update now callback details c) =
     (if cb_ResultCode callback = JNum (Fin 0) then Completed else Failed)"
  by (simp add: charge_update_def)

lemma handleContributionCallback_resolved:
  assumes "cb_stkCallback cbd = Some callback" and "\<not> truthy (cb_test cbd)"
    and "truthy (cb_CheckoutRequestID callback)" and "has_toString (cb_ResultCode callback)"
    and "single (filter (\<lambda>c. mpesa_checkout_request_id c = Some (cb_CheckoutRequestID callback))
                   (contributions st)) = Some c"
  shows "snd (handleContributionCallback rpc now cbd st) =
           (let st1 = snd (update_contribution now (contribution_id c)
                        (charge_update now callback (parseCallbackMetadata (cb_Item callback))) st)
            in if cb_ResultCode callback = JNum (Fin 0) \<and> status c \<noteq> Completed
               then updateCampaignFunding rpc now (campaign_id c) (amount c) st1
               else st1)"
  using assms by (simp add: handleContributionCallback_def Let_def)

text \<open>
  The guard of the charge handler. A successful charge callback that is resolved to a
  contribution already \<open>completed\<close> changes no campaign row, whatever the database
  function does and whether or not the trigger and the constraint are installed: the
  row goes from \<open>completed\<close> to \<open>completed\<close>, on which the trigger does nothing, and the
  handler skips its ledger update. The ids of the rows are distinct (they are the
  primary key).
\<close>

lemma charge_callback_on_completed_keeps_ledger:
  assumes "cb_stkCallback cbd = Some callback" and "\<not> truthy (cb_test cbd)"
    and "truthy (cb_CheckoutRequestID callback)" and "cb_ResultCode callback = JNum (Fin 0)"
    and "single (filter (\<lambda>c. mpesa_checkout_request_id c = Some (cb_CheckoutRequestID callback))
                   (contributions st)) = Some c"
    and "status c = Completed" and "distinct (map contribution_id (contributions st))"
  shows "campaigns (snd (handleContributionCallback rpc now cbd st)) = campaigns st"
proof -
  let ?f = "charge_update now callback (parseCallbackMetadata (cb_Item callback))"
  have ts: "has_toString (cb_ResultCode callback)"
    using assms(4) by (simp add: has_toString_def)
  have "c \<in> set (filter (\<lambda>c. mpesa_checkout_request_id c = Some (cb_CheckoutRequestID callback))
                   (contributions st))"
    using single_SomeD [OF assms(5)] by simp
  then have "c \<in> set (contributions st)" by simp
  then have t: "filter (\<lambda>x. contribution_id x = contribution_id c) (contributions st) = [c]"
    by (rule filter_id_distinct [OF assms(7)])
  have "update_campaign_funding (funding_check st) now c (?f c) (campaigns st) = Some (campaigns st)"
    by (rule trigger_same_status) (simp add: assms(4,6))
  then have "campaigns (snd (update_contribution now (contribution_id c) ?f st)) = campaigns st"
    by (simp add: update_contribution_def Let_def t)
  then show ?thesis
    by (simp add: handleContributionCallback_resolved [OF assms(1-3) ts assms(5)] Let_def assms(6))
qed

lemma reversal_update_status [simp]:
  "status (reversal_update now Result c) =
     (if rv_ResultCode Result = JNum (Fin 0) then Refunded else status c)"
  by (simp add: reversal_update_def)

lemma reversal_update_no_credit:
  "status (reversal_update now Result c) = Completed \<longrightarrow> status c = Completed"
  by simp




subsection \<open>The invariant of the funding totals\<close>










subsection \<open>Debits beyond the total\<close>


lemma reversal_update_row [simp]:
  "campaign_id (reversal_update now Result c) = campaign_id c"
  "amount (reversal_update now Result c) = amount c"
  by (simp_all add: reversal_update_def)





subsection \<open>Charge initiation and its timeout\<close>

lemma rejected_invalid_amount:
  assumes "js_lt (Math_floor n) (Fin 1) \<or> js_gt (Math_floor n) (Fin 300000)"
  shows "rejected_before_request (initiateSTKPush g phone (JNum n) cid)"
  using assms
  by (auto simp: rejected_before_request_def initiateSTKPush_def initiateSTKPush_try_def Let_def)

lemma rejected_zero_amount:
  "rejected_before_request (initiateSTKPush g phone (JNum (Fin 0)) cid)"
  by (simp add: rejected_before_request_def initiateSTKPush_def initiateSTKPush_try_def)

lemma accepted_amount_range:
  assumes "phone \<noteq> []" "cid \<noteq> []" "token_fetch g = Inr tok" "1 \<le> r" "r < 300001"
  shows "\<exists>req. fst (initiateSTKPush g phone (JNum (Fin r)) cid) = [req] \<and>
             Amount req = Fin (of_int \<lfloor>r\<rfloor>)"
proof -
  have a: "1 \<le> \<lfloor>r\<rfloor>" using assms(4) by (simp add: le_floor_iff)
  have b: "\<lfloor>r\<rfloor> \<le> 300000" using assms(5) by (simp add: floor_le_iff)
  have c: "\<not> (of_int \<lfloor>r\<rfloor> :: rat) < 1" using a by linarith
  have d: "\<not> (300000 :: rat) < of_int \<lfloor>r\<rfloor>" using b by linarith
  have e: "r \<noteq> 0" using assms(4) by auto
  show ?thesis using assms(1-3) c d e
    by (auto simp: initiateSTKPush_def initiateSTKPush_try_def generateAccessToken_def js_gt_def
        Let_def split: sum.splits)
qed

lemma timeout_includes:
  "includes_js ''M-Pesa service timeout - please try again'' ''timeout''"
  by (simp add: startsWith_def)

text \<open>The catch block of the payment step on a timeout error of the charge initiation.\<close>

lemma contribute_payment_step_timeout:
  assumes "snd (initiateSTKPush g formattedPhone (JNum (Math_floor (Number_js amt))) i) =
             Inl (Error ''M-Pesa service timeout - please try again'')"
  shows "contribute_payment_step g now i formattedPhone amt st =
           (\<lparr>reply_status = 504,
             reply_text = ''Payment service is currently slow. Please try again in a few minutes.'',
             reply_can_retry = Some True\<rparr>,
            snd (update_contribution now i
              (\<lambda>c. c\<lparr>status := Failed,
                     result_desc :=
                       [JStr ''M-Pesa initiation failed: M-Pesa service timeout - please try again''],
                     updated_at := Some now\<rparr>) st))"
proof -
  have m: "err_message (Error ''M-Pesa service timeout - please try again'') =
             ''M-Pesa service timeout - please try again''"
    by (simp add: Error_def)
  show ?thesis
    unfolding contribute_payment_step_def assms
    by (simp only: sum.case m timeout_includes Let_def if_True) simp
qed

lemma initiateSTKPush_timeout:
  assumes "formattedPhone \<noteq> []" and "i \<noteq> []" and "token_fetch g = Inr tok"
    and "1 \<le> k" and "k \<le> 300000"
    and "\<forall>req. stk_post g req = Inl e" and "err_code e = Some ''ECONNABORTED''"
  shows "snd (initiateSTKPush g formattedPhone (JNum (Fin k)) i) =
             Inl (Error ''M-Pesa service timeout - please try again'')"
proof -
  have a: "1 \<le> \<lfloor>k\<rfloor>" using assms(4) by (simp add: le_floor_iff)
  have b: "\<lfloor>k\<rfloor> \<le> 300000" using assms(5) by (simp add: floor_le_iff)
  have c: "\<not> (of_int \<lfloor>k\<rfloor> :: rat) < 1" using a by linarith
  have d: "\<not> (300000 :: rat) < of_int \<lfloor>k\<rfloor>" using b by linarith
  have e: "k \<noteq> 0" using assms(4) by auto
  show ?thesis
    using assms(1-3,6,7) c d e
    by (simp add: initiateSTKPush_def initiateSTKPush_try_def generateAccessToken_def
        js_gt_def Let_def stk_error_mapping_def)
qed

lemma timeout_gateway_times_out:
  "snd (initiateSTKPush timeout_gateway ''254712345678''
          (JNum (Math_floor (Number_js (JNum (Fin 100))))) ''c1'') =
     Inl (Error ''M-Pesa service timeout - please try again'')"
proof -
  have "snd (initiateSTKPush timeout_gateway ''254712345678'' (JNum (Fin 100)) ''c1'') =
             Inl (Error ''M-Pesa service timeout - please try again'')"
    by (rule initiateSTKPush_timeout [where tok = "''token''" and e = timeout_error])
       (simp_all add: timeout_gateway_def demo_gateway_def timeout_error_def)
  then show ?thesis by simp
qed

text \<open>
  The update of the payment step on an initiation error writes the row whether or not
  the trigger is installed: the new status is \<open>failed\<close>, so the trigger credits nothing
  and the constraint has nothing to refuse.
\<close>

lemma contributions_after_failed_update:
  "contributions (snd (update_contribution now i
      (\<lambda>c. c\<lparr>status := Failed, result_desc := d, updated_at := Some now\<rparr>) st)) =
     map (\<lambda>c. if contribution_id c = i
               then c\<lparr>status := Failed, result_desc := d, updated_at := Some now\<rparr> else c)
       (contributions st)"
  by (rule update_contribution_no_credit(2)) simp

section \<open>The claims\<close>

subsection \<open>Charge callbacks\<close>

text \<open>
  C1 at a concrete input, in the database of the migrations: the trigger and the
  constraint are installed and the database function is missing. A contribution of 100
  is \<open>pending\<close> and the campaign total is 500. One successful charge callback makes
  the contribution \<open>completed\<close> and the total 700, not 600: the amount is credited by
  the trigger, on the change of the status, and once more by the ledger update of the
  handler. The same callback delivered again changes nothing, and the total stays 700.
  After two deliveries the total carries two credits of the amount.
\<close>

theorem charge_callback_credited_twice_on_first_delivery:
  "funding_of (repo_store Pending None 500) ''camp1'' = Some 500 \<and>
   map status (contributions (snd (handleContributionCallback rpc_missing 2000
       (demo_charge_callback (JNum (Fin 0))) (repo_store Pending None 500)))) = [Completed] \<and>
   funding_of (snd (handleContributionCallback rpc_missing 2000
       (demo_charge_callback (JNum (Fin 0))) (repo_store Pending None 500))) ''camp1'' = Some 700 \<and>
   funding_of (snd (handleContributionCallback rpc_missing 3000 (demo_charge_callback (JNum (Fin 0)))
     (snd (handleContributionCallback rpc_missing 2000
       (demo_charge_callback (JNum (Fin 0))) (repo_store Pending None 500))))) ''camp1'' = Some 700"
  by (simp add: demo_defs handler_defs)


subsection \<open>Reversal callbacks\<close>

text \<open>
  C2 at a concrete input, in a database with neither the trigger nor the constraint. A
  contribution of 100 is waiting for its refund and the campaign total is 600; the
  database function is missing. The reversal callback with result code 0 makes the
  contribution \<open>refunded\<close> and the total 500. The same callback delivered again, on the
  now \<open>refunded\<close> contribution, debits the ledger a second time: the total is 400.
\<close>

theorem reversal_callback_twice_debits_twice:
  "map status (contributions (snd (handleReversalCallback rpc_missing 2000
       (Some (demo_reversal_result (JNum (Fin 0)))) (demo_store RefundPending (Some (JStr ''ABC1'')) 600))))
     = [Refunded] \<and>
   funding_of (snd (handleReversalCallback rpc_missing 2000
       (Some (demo_reversal_result (JNum (Fin 0)))) (demo_store RefundPending (Some (JStr ''ABC1'')) 600)))
     ''camp1'' = Some 500 \<and>
   funding_of (snd (handleReversalCallback rpc_missing 3000 (Some (demo_reversal_result (JNum (Fin 0))))
     (snd (handleReversalCallback rpc_missing 2000
       (Some (demo_reversal_result (JNum (Fin 0)))) (demo_store RefundPending (Some (JStr ''ABC1'')) 600)))))
     ''camp1'' = Some 400"
  by (simp add: demo_defs handler_defs)

text \<open>
  The same two deliveries in the database of the migrations. The first is debited by
  the trigger and by the handler, 600 to 400; the repeated one is debited by the
  handler again, to 300.
\<close>

lemma reversal_callback_twice_with_trigger:
  "funding_of (snd (handleReversalCallback rpc_missing 2000
       (Some (demo_reversal_result (JNum (Fin 0)))) (repo_store RefundPending (Some (JStr ''ABC1'')) 600)))
     ''camp1'' = Some 400 \<and>
   funding_of (snd (handleReversalCallback rpc_missing 3000 (Some (demo_reversal_result (JNum (Fin 0))))
     (snd (handleReversalCallback rpc_missing 2000
       (Some (demo_reversal_result (JNum (Fin 0)))) (repo_store RefundPending (Some (JStr ''ABC1'')) 600)))))
     ''camp1'' = Some 300"
  by (simp add: demo_defs handler_defs)

text \<open>
  C4 at concrete inputs, in the database of the migrations. A reversal callback with
  result code 21 that arrives on a contribution waiting for its refund leaves the
  status \<open>refund_pending\<close> and the campaign total at 600: the contribution is not
  refunded and the ledger is not debited. A reversal callback with result code 1
  leaves the status \<open>refund_pending\<close> as well; the contribution does not become
  \<open>refund_failed\<close>.
\<close>

theorem reversal_failure_keeps_status:
  "map status (contributions (repo_store RefundPending (Some (JStr ''ABC1'')) 600)) = [RefundPending] \<and>
   map status (contributions (snd (handleReversalCallback rpc_missing 2000
       (Some (demo_reversal_result (JNum (Fin 21)))) (repo_store RefundPending (Some (JStr ''ABC1'')) 600))))
     = [RefundPending] \<and>
   funding_of (snd (handleReversalCallback rpc_missing 2000
       (Some (demo_reversal_result (JNum (Fin 21)))) (repo_store RefundPending (Some (JStr ''ABC1'')) 600)))
     ''camp1'' = Some 600 \<and>
   map status (contributions (snd (handleReversalCallback rpc_missing 2000
       (Some (demo_reversal_result (JNum (Fin 1)))) (repo_store RefundPending (Some (JStr ''ABC1'')) 600))))
     = [RefundPending]"
  by (simp add: demo_defs handler_defs)

subsection \<open>The ledger\<close>



subsection \<open>Refund requests\<close>

text \<open>
  C5 at a concrete input. \<open>initiateReversal\<close> posts no request and throws, whatever its
  arguments and whatever the gateway would answer: it reads the unbound name
  \<open>occasion\<close> while it builds the request. So a refund request on a completed
  contribution paid through the gateway, with a settled transaction id and a gateway
  that accepts every reversal, ends with the contribution \<open>refund_failed\<close>, the error
  text \<open>Reversal initiation failed: occasion is not defined\<close> on the row, no
  conversation id stored, and the reply 500; the contribution never becomes
  \<open>refund_pending\<close>.
\<close>

theorem refund_request_always_refund_failed:
  "fst (initiateReversal g transactionId amt remarks) = [] \<and>
   isl (snd (initiateReversal g transactionId amt remarks)) \<and>
   snd (initiateReversal demo_gateway (JStr ''ABC1'') (JNum (Fin 100)) ''Admin initiated refund'')
     = Inl (Error ''Reversal initiation failed: occasion is not defined'') \<and>
   reply_status (fst (post_contribution_refund demo_gateway 5000 ''c1'' ''Admin initiated refund''
       (demo_store Completed (Some (JStr ''ABC1'')) 600))) = 500 \<and>
   map status (contributions (snd (post_contribution_refund demo_gateway 5000 ''c1''
       ''Admin initiated refund'' (demo_store Completed (Some (JStr ''ABC1'')) 600)))) = [RefundFailed] \<and>
   map refund_error (contributions (snd (post_contribution_refund demo_gateway 5000 ''c1''
       ''Admin initiated refund'' (demo_store Completed (Some (JStr ''ABC1'')) 600))))
     = [Some ''Reversal initiation failed: occasion is not defined''] \<and>
   map reversal_conversation_id (contributions (snd (post_contribution_refund demo_gateway 5000 ''c1''
       ''Admin initiated refund'' (demo_store Completed (Some (JStr ''ABC1'')) 600)))) = [None]"
proof -
  have a: "fst (initiateReversal g transactionId amt remarks) = [] \<and>
           isl (snd (initiateReversal g transactionId amt remarks))"
    by (simp add: initiateReversal_def initiateReversal_try_def occasion_binding_def Let_def
        split: sum.splits)
  have b: "snd (initiateReversal demo_gateway (JStr ''ABC1'') (JNum (Fin 100)) ''Admin initiated refund'')
     = Inl (Error ''Reversal initiation failed: occasion is not defined'')"
    by (simp add: initiateReversal_def initiateReversal_try_def occasion_binding_def
        generateAccessToken_def demo_gateway_def js_gt_def reversal_error_mapping_def Error_def)
  show ?thesis
    using a by (simp add: b post_contribution_refund_def demo_store_def demo_contribution_def
        update_contribution_def Error_def)
qed

text \<open>
  The same refund request in the database of the migrations: the row ends
  \<open>refund_failed\<close> and the campaign total is untouched.
\<close>

lemma refund_request_with_trigger:
  "map status (contributions (snd (post_contribution_refund demo_gateway 5000 ''c1''
       ''Admin initiated refund'' (repo_store Completed (Some (JStr ''ABC1'')) 600)))) = [RefundFailed] \<and>
   funding_of (snd (post_contribution_refund demo_gateway 5000 ''c1''
       ''Admin initiated refund'' (repo_store Completed (Some (JStr ''ABC1'')) 600))) ''camp1''
     = Some 600"
proof -
  have b: "snd (initiateReversal demo_gateway (JStr ''ABC1'') (JNum (Fin 100)) ''Admin initiated refund'')
     = Inl (Error ''Reversal initiation failed: occasion is not defined'')"
    by (simp add: initiateReversal_def initiateReversal_try_def occasion_binding_def
        generateAccessToken_def demo_gateway_def js_gt_def reversal_error_mapping_def Error_def)
  show ?thesis
    by (simp add: b post_contribution_refund_def demo_store_def repo_store_def
        demo_contribution_def update_contribution_def update_campaign_funding_def funding_of_def
        funding_or_zero_def Error_def)
qed

subsection \<open>Timeouts of the charge initiation\<close>

text \<open>
  C7, as the code has it. The charge initiation of a contribution passes the
  validation (phone number and id present, amount between 1 and 300000 after
  truncation, token at hand) and every charge request times out at the HTTP client
  (error code \<open>ECONNABORTED\<close>). Then the payment step of the route moves the
  contribution to status \<open>failed\<close> and records the timeout message in \<open>result_desc\<close>;
  the retryable classification is carried by the reply alone, which has status 504 and
  \<open>can_retry\<close> true.
\<close>

theorem charge_timeout_marks_failed_reply_retryable:
  assumes "formattedPhone \<noteq> []" and "i \<noteq> []" and "token_fetch g = Inr tok"
    and "Math_floor (Number_js amt) = Fin k" and "1 \<le> k" and "k \<le> 300000"
    and "\<forall>req. stk_post g req = Inl e" and "err_code e = Some ''ECONNABORTED''"
  shows "map status (contributions (snd (contribute_payment_step g now i formattedPhone amt st))) =
           map (\<lambda>x. if contribution_id x = i then Failed else status x) (contributions st) \<and>
         map result_desc (contributions (snd (contribute_payment_step g now i formattedPhone amt st))) =
           map (\<lambda>x. if contribution_id x = i
                    then [JStr ''M-Pesa initiation failed: M-Pesa service timeout - please try again'']
                    else result_desc x) (contributions st) \<and>
         reply_status (fst (contribute_payment_step g now i formattedPhone amt st)) = 504 \<and>
         reply_can_retry (fst (contribute_payment_step g now i formattedPhone amt st)) = Some True"
proof -
  have r: "snd (initiateSTKPush g formattedPhone (JNum (Math_floor (Number_js amt))) i) =
             Inl (Error ''M-Pesa service timeout - please try again'')"
    unfolding assms(4) using assms(1-3,5-8) by (rule initiateSTKPush_timeout)
  show ?thesis
    by (simp add: contribute_payment_step_timeout [OF r] contributions_after_failed_update
        comp_def if_distrib [of status] if_distrib [of result_desc] cong: if_cong)
qed

theorem charge_timeout_marks_failed_reply_retryable_witness:
  "''254712345678'' \<noteq> [] \<and> ''c1'' \<noteq> [] \<and> token_fetch timeout_gateway = Inr ''token'' \<and>
   Math_floor (Number_js (JNum (Fin 100))) = Fin 100 \<and> (1 :: rat) \<le> 100 \<and> (100 :: rat) \<le> 300000 \<and>
   (\<forall>req. stk_post timeout_gateway req = Inl timeout_error) \<and>
   err_code timeout_error = Some ''ECONNABORTED'' \<and>
   map status (contributions (snd (contribute_payment_step timeout_gateway 2000 ''c1''
      ''254712345678'' (JNum (Fin 100)) (demo_store Pending None 500)))) = [Failed] \<and>
   reply_status (fst (contribute_payment_step timeout_gateway 2000 ''c1''
      ''254712345678'' (JNum (Fin 100)) (demo_store Pending None 500))) = 504 \<and>
   reply_can_retry (fst (contribute_payment_step timeout_gateway 2000 ''c1''
      ''254712345678'' (JNum (Fin 100)) (demo_store Pending None 500))) = Some True"
proof -
  have h: "token_fetch timeout_gateway = Inr ''token''"
    "\<forall>req. stk_post timeout_gateway req = Inl timeout_error"
    "err_code timeout_error = Some ''ECONNABORTED''"
    by (simp_all add: timeout_gateway_def demo_gateway_def timeout_error_def)
  have m: "Math_floor (Number_js (JNum (Fin 100))) = Fin 100" by simp
  from charge_timeout_marks_failed_reply_retryable
         [OF _ _ h(1) m _ _ h(2) h(3), of "''254712345678''" "''c1''" 2000
            "demo_store Pending None 500"]
  have a: "map status (contributions (snd (contribute_payment_step timeout_gateway 2000 ''c1''
              ''254712345678'' (JNum (Fin 100)) (demo_store Pending None 500)))) =
           map (\<lambda>x. if contribution_id x = ''c1'' then Failed else status x)
             (contributions (demo_store Pending None 500))"
    and b: "reply_status (fst (contribute_payment_step timeout_gateway 2000 ''c1''
              ''254712345678'' (JNum (Fin 100)) (demo_store Pending None 500))) = 504"
    and c: "reply_can_retry (fst (contribute_payment_step timeout_gateway 2000 ''c1''
              ''254712345678'' (JNum (Fin 100)) (demo_store Pending None 500))) = Some True"
    by simp_all
  have a': "map status (contributions (snd (contribute_payment_step timeout_gateway 2000 ''c1''
              ''254712345678'' (JNum (Fin 100)) (demo_store Pending None 500)))) = [Failed]"
    unfolding a by (simp add: demo_store_def demo_contribution_def)
  show ?thesis using h m a' b c by simp
qed

text \<open>
  The claim C7 as written fails. A contribution is \<open>pending\<close>, its charge initiation
  times out, and the payment step leaves it \<open>failed\<close>.
\<close>

theorem charge_timeout_leaves_pending_refuted:
  "map status (contributions (demo_store Pending None 500)) = [Pending] \<and>
   map status (contributions (snd (contribute_payment_step timeout_gateway 2000 ''c1''
      ''254712345678'' (JNum (Fin 100)) (demo_store Pending None 500)))) = [Failed]"
  using contribute_payment_step_timeout [OF timeout_gateway_times_out]
  by (simp add: demo_store_def demo_contribution_def update_contribution_def)

subsection \<open>Charge initiation\<close>

text \<open>
  C8, as the code has it. \<open>initiateSTKPush\<close> truncates the amount with \<open>Math.floor\<close>
  before it compares. Amount 0, every negative amount and every amount of at least
  300001 (one whose integer part is greater than 300000), the infinities included, are
  rejected with an error before any request is submitted, whatever the other arguments
  and the gateway. With a phone number, a contribution id and a token, every amount from
  1 up to but excluding 300001 passes, and the request is submitted with the amount
  truncated; amounts 1 and 300000 are among them.
\<close>

theorem initiateSTKPush_amount_validation:
  "rejected_before_request (initiateSTKPush g phone (JNum (Fin 0)) cid) \<and>
   (r < 0 \<longrightarrow> rejected_before_request (initiateSTKPush g phone (JNum (Fin r)) cid)) \<and>
   (300001 \<le> r \<longrightarrow> rejected_before_request (initiateSTKPush g phone (JNum (Fin r)) cid)) \<and>
   rejected_before_request (initiateSTKPush g phone (JNum NegInf) cid) \<and>
   rejected_before_request (initiateSTKPush g phone (JNum PosInf) cid) \<and>
   (phone \<noteq> [] \<and> cid \<noteq> [] \<and> token_fetch g = Inr tok \<and> 1 \<le> q \<and> q < 300001 \<longrightarrow>
      (\<exists>req. fst (initiateSTKPush g phone (JNum (Fin q)) cid) = [req] \<and>
             Amount req = Fin (of_int \<lfloor>q\<rfloor>)))"
proof -
  have neg: "rejected_before_request (initiateSTKPush g phone (JNum (Fin r)) cid)" if "r < 0"
  proof -
    have "\<lfloor>r\<rfloor> < 1" using that by (simp add: floor_less_iff)
    then have "(of_int \<lfloor>r\<rfloor> :: rat) < 1" by linarith
    then show ?thesis by (intro rejected_invalid_amount) simp
  qed
  have big: "rejected_before_request (initiateSTKPush g phone (JNum (Fin r)) cid)" if "300001 \<le> r"
  proof -
    have "300001 \<le> \<lfloor>r\<rfloor>" using that by (simp add: le_floor_iff)
    then have "(300000 :: rat) < of_int \<lfloor>r\<rfloor>" by linarith
    then show ?thesis by (intro rejected_invalid_amount) (simp add: js_gt_def)
  qed
  have ninf: "rejected_before_request (initiateSTKPush g phone (JNum NegInf) cid)"
    by (intro rejected_invalid_amount) simp
  have pinf: "rejected_before_request (initiateSTKPush g phone (JNum PosInf) cid)"
    by (intro rejected_invalid_amount) (simp add: js_gt_def)
  show ?thesis using rejected_zero_amount neg big ninf pinf accepted_amount_range by blast
qed

theorem initiateSTKPush_amount_validation_witness:
  "(- 5 :: rat) < 0 \<and>
   rejected_before_request (initiateSTKPush demo_gateway ''0712345678'' (JNum (Fin (- 5))) ''c1'') \<and>
   (300001 :: rat) \<le> 300001 \<and>
   rejected_before_request (initiateSTKPush demo_gateway ''0712345678'' (JNum (Fin 300001)) ''c1'') \<and>
   ''0712345678'' \<noteq> [] \<and> ''c1'' \<noteq> [] \<and> token_fetch demo_gateway = Inr ''token'' \<and>
   (1 :: rat) \<le> 300000 \<and> (300000 :: rat) < 300001 \<and>
   (\<exists>req. fst (initiateSTKPush demo_gateway ''0712345678'' (JNum (Fin 300000)) ''c1'') = [req] \<and>
          Amount req = Fin 300000)"
  using initiateSTKPush_amount_validation
          [of demo_gateway "''0712345678''" "''c1''" "- 5" "''token''" 300000]
        initiateSTKPush_amount_validation
          [of demo_gateway "''0712345678''" "''c1''" 300001 "''token''" 300000]
  by (simp add: demo_gateway_def)

text \<open>
  The claim C8 as written fails: 300000.5 is greater than 300000, and the call is
  accepted, with the request submitted for the amount 300000.
\<close>

theorem amount_above_ceiling_accepted:
  "(300000 :: rat) < 600001 / 2 \<and>
   initiateSTKPush demo_gateway ''0712345678'' (JNum (Fin (600001 / 2))) ''c1''
     = ([\<lparr>Amount = Fin 300000, PartyA = 254712345678, PhoneNumber = 254712345678,
          AccountReference = ''CONTRIBUTION_c1'',
          TransactionDesc = ''Campaign Contribution - c1''\<rparr>],
        Inr \<lparr>ResponseCode = JStr ''0'', MerchantRequestID = JStr ''MR1'',
             CheckoutRequestID = JStr ''CO123'', ResponseDescription = ''Success'',
             CustomerMessage = JStr ''Success''\<rparr>)"
  by (simp add: initiateSTKPush_def initiateSTKPush_try_def generateAccessToken_def js_gt_def
      demo_gateway_def formatPhoneNumber_demo floor_300000_half)

text \<open>
  C10. An amount that is truthy and whose numeric conversion is \<open>NaN\<close> is not rejected
  by the amount validation of \<open>initiateSTKPush\<close>: both range comparisons are false on
  \<open>NaN\<close>, and with a phone number, a contribution id and a token the charge request is
  built and submitted with \<open>Amount\<close> equal to \<open>NaN\<close>.
\<close>

theorem initiateSTKPush_NaN_amount_not_rejected:
  assumes "phone \<noteq> []" and "cid \<noteq> []" and "truthy amt" and "Number_js amt = NaN"
    and "token_fetch g = Inr tok"
  shows "\<not> js_lt (Math_floor (Number_js amt)) (Fin 1) \<and>
         \<not> js_gt (Math_floor (Number_js amt)) (Fin 300000) \<and>
         (\<exists>req. fst (initiateSTKPush g phone amt cid) = [req] \<and> Amount req = NaN)"
  using assms
  by (auto simp: initiateSTKPush_def initiateSTKPush_try_def generateAccessToken_def js_gt_def
      Let_def split: sum.splits)

theorem initiateSTKPush_NaN_amount_not_rejected_witness:
  "''0712345678'' \<noteq> [] \<and> ''c1'' \<noteq> [] \<and> truthy (JStr ''abc'') \<and>
   Number_js (JStr ''abc'') = NaN \<and> token_fetch demo_gateway = Inr ''token'' \<and>
   (\<exists>req. fst (initiateSTKPush demo_gateway ''0712345678'' (JStr ''abc'') ''c1'') = [req] \<and>
          Amount req = NaN)"
  using initiateSTKPush_NaN_amount_not_rejected
          [of "''0712345678''" "''c1''" "JStr ''abc''" demo_gateway "''token''"]
  by (simp add: StringToNumber_abc demo_gateway_def)

subsection \<open>Phone numbers\<close>

text \<open>
  C9. The three usual spellings of one subscriber number, \<open>0712345678\<close>,
  \<open>+254712345678\<close> and \<open>254712345678\<close>, are all normalised by \<open>formatPhoneNumber\<close> to the
  same number 254712345678.
\<close>

theorem formatPhoneNumber_canonical:
  "formatPhoneNumber ''0712345678'' = 254712345678 \<and>
   formatPhoneNumber ''+254712345678'' = 254712345678 \<and>
   formatPhoneNumber ''254712345678'' = 254712345678"
  by (simp add: formatPhoneNumber_def cleaned_digits_def is_digit_def startsWith_def
      digits_to_nat_def digit_val_def)

end
